theory Spec2Isabelle
  imports Complex_Main "HOL-Library.Log_Nat"
begin

section \<open>Numbers\<close>

text \<open>
  The program is JavaScript. Its numbers are modelled as reals and the arithmetic below
  is exact; the rounding of each operation to a double is added in the section on
  rounding, for the bounds of a position, where it matters. Overflow to an infinity and
  signed zeros are outside the model. A value that is not a number is \<open>None\<close>: this stands both for \<open>undefined\<close> (a field that an object such as
  \<open>{}\<close> does not have) and for \<open>NaN\<close>. The two behave alike under every operation
  the program applies: arithmetic on either gives \<open>NaN\<close>, a comparison with either is
  false, \<open>Math.max\<close> and \<open>Math.min\<close> give \<open>NaN\<close>, and both are falsy.
\<close>

type_synonym number = "real option"

text \<open>\<open>!v\<close> is true for \<open>undefined\<close>, \<open>NaN\<close> and \<open>0\<close>.\<close>

fun truthy :: "number \<Rightarrow> bool" where
  "truthy None = False"
| "truthy (Some r) = (r \<noteq> 0)"

fun js_add :: "number \<Rightarrow> number \<Rightarrow> number" where
  "js_add (Some a) (Some b) = Some (a + b)"
| "js_add _ _ = None"

fun js_sub :: "number \<Rightarrow> number \<Rightarrow> number" where
  "js_sub (Some a) (Some b) = Some (a - b)"
| "js_sub _ _ = None"

fun js_mul :: "number \<Rightarrow> number \<Rightarrow> number" where
  "js_mul (Some a) (Some b) = Some (a * b)"
| "js_mul _ _ = None"

text \<open>
  The program divides in one place only, by a value it has just tested to be truthy;
  a division by zero (an infinity, or \<open>NaN\<close> for \<open>0 / 0\<close>) is given \<open>None\<close>.
\<close>

fun js_div :: "number \<Rightarrow> number \<Rightarrow> number" where
  "js_div (Some a) (Some b) = (if b = 0 then None else Some (a / b))"
| "js_div _ _ = None"

fun js_gt :: "number \<Rightarrow> number \<Rightarrow> bool" where
  "js_gt (Some a) (Some b) = (a > b)"
| "js_gt _ _ = False"

fun Math_max :: "number \<Rightarrow> number \<Rightarrow> number" where
  "Math_max (Some a) (Some b) = Some (max a b)"
| "Math_max _ _ = None"

fun Math_min :: "number \<Rightarrow> number \<Rightarrow> number" where
  "Math_min (Some a) (Some b) = Some (min a b)"
| "Math_min _ _ = None"

text \<open>\<open>clamp (value, min, max)\<close>: \<open>Math.max(Math.min(value, max), min)\<close>.\<close>

definition clamp :: "number \<Rightarrow> number \<Rightarrow> number \<Rightarrow> number" where
  "clamp v mn mx = Math_max (Math_min v mx) mn"

section \<open>The state of an instance\<close>

text \<open>
  \<open>var state = { position: { x: 0, y: 0 }, original: {}, container: {}, zoom: 1 }\<close>.
  The objects \<open>original\<close> and \<open>container\<close> start without fields, so their
  \<open>width\<close> and \<open>height\<close> read as \<open>undefined\<close>.
\<close>

record pos =
  x :: number
  y :: number

record dims =
  width :: number
  height :: number

record state =
  position :: pos
  original :: dims
  container :: dims
  zoom :: number

definition empty_dims :: dims where
  "empty_dims = \<lparr>width = None, height = None\<rparr>"

definition initial_state :: state where
  "initial_state =
     \<lparr>position = \<lparr>x = Some 0, y = Some 0\<rparr>, original = empty_dims,
      container = empty_dims, zoom = Some 1\<rparr>"

section \<open>The state handlers\<close>

text \<open>
  \<open>calcPos (pos, originalSize, containerSize)\<close> reads \<open>state.zoom\<close>. Its two local
  variables \<open>min\<close> and \<open>max\<close> are given by \<open>calcPos_bounds\<close>; the other local
  variables keep their names.
\<close>

definition calcPos_bounds :: "state \<Rightarrow> number \<Rightarrow> number \<Rightarrow> number \<times> number" where
  "calcPos_bounds st originalSize containerSize =
     (let realSize = js_mul originalSize (zoom st);
          overflow = Math_max (js_sub realSize containerSize) (Some 0);
          lowestValue = js_div (js_sub realSize originalSize) (Some 2);
          mn = js_sub lowestValue overflow;
          highestValue = js_sub (js_add containerSize lowestValue) realSize;
          mx = js_add highestValue overflow
      in (mn, mx))"

definition calcPos :: "state \<Rightarrow> number \<Rightarrow> number \<Rightarrow> number \<Rightarrow> number" where
  "calcPos st p originalSize containerSize =
     (case calcPos_bounds st originalSize containerSize of (mn, mx) \<Rightarrow> clamp p mn mx)"

definition unmeasured :: "dims \<Rightarrow> bool" where
  "unmeasured d = (\<not> truthy (width d) \<or> \<not> truthy (height d))"

definition getPosition :: "state \<Rightarrow> pos \<Rightarrow> pos" where
  "getPosition st p =
     (if \<not> truthy (width (original st)) \<or> \<not> truthy (height (original st)) then p
      else \<lparr>x = calcPos st (x p) (width (original st)) (width (container st)),
            y = calcPos st (y p) (height (original st)) (height (container st))\<rparr>)"

text \<open>The local function inside \<open>getZoom\<close> that computes \<open>min\<close>.\<close>

definition getZoom_min :: "state \<Rightarrow> number" where
  "getZoom_min st =
     (let imageSize =
            (if js_gt (width (original st)) (height (original st))
             then width (original st) else height (original st));
          containerSize =
            (if js_gt (width (container st)) (height (container st))
             then width (container st) else height (container st))
      in js_div containerSize imageSize)"

definition getZoom :: "state \<Rightarrow> number \<Rightarrow> number" where
  "getZoom st z =
     (if \<not> truthy (width (original st)) \<or> \<not> truthy (height (original st)) then z
      else Math_max z (getZoom_min st))"

section \<open>Updating the state\<close>

text \<open>
  The argument of \<open>setState\<close> and \<open>applyState\<close> is an object; \<open>for (var key in
  newState)\<close> visits its own keys in the order in which the caller wrote them. It is
  modelled as the list of its entries in that order. An object has each key once, which
  is \<open>wf_newState\<close>. (A key other than the four of the state is stored verbatim and read
  by nothing; it is left out.)
\<close>

datatype entry =
    is_position: Position pos
  | is_zoom: Zoom number
  | is_original: Original dims
  | is_container: Container dims

type_synonym newState = "entry list"


text \<open>
  One round of the loop of \<open>applyState\<close>: \<open>position\<close> and \<open>zoom\<close> have a handler in
  \<open>stateHandlers\<close>, which reads the state as it is at that moment; the other keys are
  stored as they come.
\<close>

fun applyKey :: "state \<Rightarrow> entry \<Rightarrow> state" where
  "applyKey st (Position p) = st\<lparr>position := getPosition st p\<rparr>"
| "applyKey st (Zoom z) = st\<lparr>zoom := getZoom st z\<rparr>"
| "applyKey st (Original d) = st\<lparr>original := d\<rparr>"
| "applyKey st (Container d) = st\<lparr>container := d\<rparr>"

fun applyState :: "state \<Rightarrow> newState \<Rightarrow> state" where
  "applyState st [] = st"
| "applyState st (e # es) = applyState (applyKey st e) es"

text \<open>
  \<open>setState\<close>; its last step \<open>update()\<close> writes the transform to the image and leaves
  the state as it is.
\<close>

definition setState :: "state \<Rightarrow> newState \<Rightarrow> state" where
  "setState st ns =
     (let st1 = applyState st ns;
          st2 = (if \<not> list_ex is_zoom ns then applyState st1 [Zoom (zoom st1)] else st1);
          st3 = (if \<not> list_ex is_position ns then applyState st2 [Position (position st2)]
                 else st2)
      in st3)"

section \<open>The callers of \<open>setState\<close> inside the program\<close>

text \<open>
  \<open>load\<close> empties \<open>state.original\<close> directly. The handler of the image's \<open>load\<close>
  event and \<open>updateContainerSize\<close> measure a rectangle and pass it to \<open>setState\<close>
  under one key; the \<open>mousemove\<close> handler passes a position. The measured rectangle
  is a parameter here. \<open>rogneur\<close> itself sets the initial state and then calls
  \<open>updateContainerSize ()\<close>.
\<close>

definition load :: "state \<Rightarrow> state" where
  "load st = st\<lparr>original := empty_dims\<rparr>"

definition onload :: "state \<Rightarrow> dims \<Rightarrow> state" where
  "onload st rect = setState st [Original \<lparr>width = width rect, height = height rect\<rparr>]"

definition updateContainerSize :: "state \<Rightarrow> dims \<Rightarrow> state" where
  "updateContainerSize st rect =
     setState st [Container \<lparr>width = width rect, height = height rect\<rparr>]"

definition rogneur :: "dims \<Rightarrow> state" where
  "rogneur rect = updateContainerSize initial_state rect"

section \<open>The state object and \<open>getState\<close>\<close>

text \<open>
  \<open>state\<close> is a variable of the closure that holds a reference to one object, which
  \<open>applyState\<close> changes in place (\<open>state[key] = \<dots>\<close>); the variable is never
  assigned again. \<open>getState\<close> is \<open>return state\<close>. To say what a caller can do with
  the value returned, objects live in a store, addressed by references. The objects
  inside the state (\<open>position\<close>, \<open>original\<close>, \<open>container\<close>) are kept by value.
\<close>

type_synonym ref = nat

type_synonym store = "ref \<Rightarrow> state option"

record closure =
  state_var :: ref

definition getState :: "closure \<Rightarrow> ref" where
  "getState i = state_var i"

text \<open>What the instance itself reads when it evaluates \<open>state\<close>.\<close>

definition internal_state :: "store \<Rightarrow> closure \<Rightarrow> state option" where
  "internal_state h i = h (state_var i)"

text \<open>
  A caller's assignment \<open>r.field = v\<close> to an object it holds a reference \<open>r\<close> to;
  \<open>upd\<close> is the change of the one field.
\<close>

definition assign_field :: "store \<Rightarrow> ref \<Rightarrow> (state \<Rightarrow> state) \<Rightarrow> store" where
  "assign_field h r upd = (case h r of None \<Rightarrow> h | Some ob \<Rightarrow> h(r := Some (upd ob)))"

text \<open>\<open>setState\<close> of an instance, on the store.\<close>

definition setState_in :: "store \<Rightarrow> closure \<Rightarrow> newState \<Rightarrow> store" where
  "setState_in h i ns =
     (case h (state_var i) of None \<Rightarrow> h
      | Some st \<Rightarrow> h(state_var i := Some (setState st ns)))"

section \<open>What the image shows\<close>


section \<open>The specification's geometry\<close>

text \<open>
  The pan bounds as the specification writes them, with its names, to be compared with
  \<open>calcPos_bounds\<close>; and clamping into a range as a case distinction.
\<close>

definition panBounds_spec :: "real \<Rightarrow> real \<Rightarrow> real \<Rightarrow> real \<times> real" where
  "panBounds_spec imageAxisSize containerAxisSize z =
     (let scaledSize = imageAxisSize * z;
          overflow = max (scaledSize - containerAxisSize) 0;
          centerOffset = (scaledSize - imageAxisSize) / 2;
          mn = centerOffset - overflow;
          mx = (containerAxisSize + centerOffset - scaledSize) + overflow
      in (mn, mx))"

definition clamp_spec :: "real \<Rightarrow> real \<Rightarrow> real \<Rightarrow> real" where
  "clamp_spec v mn mx = (if v < mn then mn else if mx < v then mx else v)"

text \<open>
  A legal state: either the image is not measured, or the zoom is a number at least the
  minimum and each coordinate of the position is a number within its bounds, all
  computed from the state itself.
\<close>

definition zoom_floor_ok :: "state \<Rightarrow> bool" where
  "zoom_floor_ok st =
     (case zoom st of None \<Rightarrow> False
      | Some z \<Rightarrow> (case getZoom_min st of None \<Rightarrow> False | Some m \<Rightarrow> m \<le> z))"

definition within_bounds :: "state \<Rightarrow> number \<Rightarrow> number \<Rightarrow> number \<Rightarrow> bool" where
  "within_bounds st p originalSize containerSize =
     (case p of None \<Rightarrow> False
      | Some r \<Rightarrow>
         (case calcPos_bounds st originalSize containerSize of
            (Some mn, Some mx) \<Rightarrow> mn \<le> r \<and> r \<le> mx
          | _ \<Rightarrow> False))"

definition pan_contained :: "state \<Rightarrow> bool" where
  "pan_contained st =
     (within_bounds st (x (position st)) (width (original st)) (width (container st)) \<and>
      within_bounds st (y (position st)) (height (original st)) (height (container st)))"

definition legal :: "state \<Rightarrow> bool" where
  "legal st = (if unmeasured (original st) then True else zoom_floor_ok st \<and> pan_contained st)"


section \<open>Rounding to doubles\<close>




text \<open>
  \<open>calcPos\<close> with the result of each arithmetic operation rounded by \<open>rnd\<close>: with
  \<open>to_double\<close> it is the computation of the program, with the identity it is
  \<open>calcPos\<close> over exact numbers.
\<close>

definition rounded :: "(real \<Rightarrow> real) \<Rightarrow> number \<Rightarrow> number" where
  "rounded rnd v = map_option rnd v"

definition calcPos_bounds_rounded ::
  "(real \<Rightarrow> real) \<Rightarrow> state \<Rightarrow> number \<Rightarrow> number \<Rightarrow> number \<times> number" where
  "calcPos_bounds_rounded rnd st originalSize containerSize =
     (let realSize = rounded rnd (js_mul originalSize (zoom st));
          overflow = Math_max (rounded rnd (js_sub realSize containerSize)) (Some 0);
          lowestValue =
            rounded rnd (js_div (rounded rnd (js_sub realSize originalSize)) (Some 2));
          mn = rounded rnd (js_sub lowestValue overflow);
          highestValue =
            rounded rnd (js_sub (rounded rnd (js_add containerSize lowestValue)) realSize);
          mx = rounded rnd (js_add highestValue overflow)
      in (mn, mx))"

definition calcPos_rounded ::
  "(real \<Rightarrow> real) \<Rightarrow> state \<Rightarrow> number \<Rightarrow> number \<Rightarrow> number \<Rightarrow> number" where
  "calcPos_rounded rnd st p originalSize containerSize =
     (case calcPos_bounds_rounded rnd st originalSize containerSize of
        (mn, mx) \<Rightarrow> clamp p mn mx)"

section \<open>Example states\<close>

text \<open>
  An image of 2000 by 1000 in a container of 500 by 500: at its natural size in the
  top left corner, and at the smallest zoom.
\<close>

definition image_2000x1000 :: dims where
  "image_2000x1000 = \<lparr>width = Some 2000, height = Some 1000\<rparr>"

definition container_500x500 :: dims where
  "container_500x500 = \<lparr>width = Some 500, height = Some 500\<rparr>"

definition natural_state :: state where
  "natural_state =
     \<lparr>position = \<lparr>x = Some 0, y = Some 0\<rparr>, original = image_2000x1000,
      container = container_500x500, zoom = Some 1\<rparr>"

definition covering_state :: state where
  "covering_state =
     \<lparr>position = \<lparr>x = Some (- 750), y = Some (- 125)\<rparr>, original = image_2000x1000,
      container = container_500x500, zoom = Some (1 / 4)\<rparr>"

text \<open>A container of 1000 by 1000, and a store with one instance.\<close>

definition container_1000x1000 :: dims where
  "container_1000x1000 = \<lparr>width = Some 1000, height = Some 1000\<rparr>"

definition example_instance :: closure where
  "example_instance = \<lparr>state_var = 0\<rparr>"

definition example_store :: store where
  "example_store = (\<lambda>r. if r = 0 then Some covering_state else None)"

section \<open>The bounds of a position\<close>

lemma calcPos_bounds_Some:
  assumes "zoom st = Some z"
  shows "calcPos_bounds st (Some s) (Some c) =
     (Some ((s * z - s) / 2 - max (s * z - c) 0),
      Some (c + (s * z - s) / 2 - s * z + max (s * z - c) 0))"
  using assms by (simp add: calcPos_bounds_def)


lemma bounds_ordered:
  "(s * z - s) / 2 - max (s * z - c) 0 \<le> c + (s * z - s) / 2 - s * z + max (s * z - c) 0"
  for s z c :: real
  by (simp add: max_def)

lemma clamp_Some: "clamp (Some v) (Some mn) (Some mx) = Some (max (min v mx) mn)"
  by (simp add: clamp_def)

lemma clamp_inside: "mn \<le> r \<Longrightarrow> r \<le> mx \<Longrightarrow> clamp (Some r) (Some mn) (Some mx) = Some r"
  by (simp add: clamp_Some)

lemma calcPos_Some:
  assumes "zoom st = Some z"
  shows "calcPos st (Some p) (Some s) (Some c) =
     Some (max (min p (c + (s * z - s) / 2 - s * z + max (s * z - c) 0))
               ((s * z - s) / 2 - max (s * z - c) 0))"
  using assms by (simp add: calcPos_def calcPos_bounds_Some clamp_Some)

lemma zoom_covering_state: "zoom covering_state = Some (1 / 4)"
  by (simp add: covering_state_def)

text \<open>
  C3. With a numeric zoom \<open>z\<close>, position \<open>p\<close>, image size \<open>s\<close> and container size
  \<open>c\<close> on one axis, \<open>calcPos\<close> returns \<open>p\<close> clamped between the \<open>min\<close> and \<open>max\<close> that
  the specification computes (\<open>scaledSize = s * z\<close>, \<open>overflow = max (scaledSize - c) 0\<close>,
  \<open>centerOffset = (scaledSize - s) / 2\<close>, \<open>min = centerOffset - overflow\<close>,
  \<open>max = (c + centerOffset - scaledSize) + overflow\<close>): the program's own \<open>clamp\<close> of
  these values, which is also the nearest value of the range. It holds for sizes of any
  sign, so for the non-negative ones of the claim.
\<close>

theorem calcPos_algorithm:
  assumes "zoom st = Some z"
  shows "calcPos st (Some p) (Some s) (Some c) =
           (case panBounds_spec s c z of (mn, mx) \<Rightarrow> clamp (Some p) (Some mn) (Some mx))
         \<and> calcPos st (Some p) (Some s) (Some c) =
           (case panBounds_spec s c z of (mn, mx) \<Rightarrow> Some (clamp_spec p mn mx))
         \<and> calcPos_bounds st (Some s) (Some c) =
           (Some (fst (panBounds_spec s c z)), Some (snd (panBounds_spec s c z)))"
proof -
  let ?mn = "(s * z - s) / 2 - max (s * z - c) 0"
  let ?mx = "c + (s * z - s) / 2 - s * z + max (s * z - c) 0"
  have spec: "panBounds_spec s c z = (?mn, ?mx)"
    by (simp add: panBounds_spec_def Let_def)
  have le: "?mn \<le> ?mx" by (rule bounds_ordered)
  have cl: "max (min p ?mx) ?mn = clamp_spec p ?mn ?mx"
    using le by (simp add: clamp_spec_def max_def min_def)
  show ?thesis
    using assms cl by (simp add: spec calcPos_Some calcPos_bounds_Some clamp_Some)
qed

theorem calcPos_algorithm_witness:
  "zoom covering_state = Some (1 / 4)
   \<and> calcPos covering_state (Some 1000) (Some 1000) (Some 500) = Some (- 125)
   \<and> calcPos_bounds covering_state (Some 1000) (Some 500) = (Some (- 375), Some (- 125))"
proof -
  have spec: "panBounds_spec 1000 500 (1 / 4) = (- 375, - 125)"
    by (simp add: panBounds_spec_def Let_def)
  have cl: "clamp_spec 1000 (- 375) (- 125) = - 125"
    by (simp add: clamp_spec_def)
  show ?thesis
    using calcPos_algorithm [OF zoom_covering_state, of 1000 1000 500] zoom_covering_state
    by (simp add: spec cl clamp_Some)
qed

section \<open>Coverage\<close>



section \<open>The scenario of the specification\<close>

text \<open>
  C8. With an image of 2000 by 1000 in a container of 500 by 500, whatever the position
  and zoom stored before: \<open>setState ({zoom: 0.1})\<close> stores the zoom 0.25; at zoom 0.25
  the bounds on the x axis are -750 and -750 and every requested x is stored as -750;
  the bounds on the y axis are -375 and -125 and a requested y of 1000 is stored as -125.
\<close>

theorem scenario_2000x1000_in_500x500:
  "zoom (setState (st\<lparr>original := image_2000x1000, container := container_500x500\<rparr>)
          [Zoom (Some (1 / 10))]) = Some (1 / 4)
   \<and> calcPos_bounds (st\<lparr>zoom := Some (1 / 4)\<rparr>) (Some 2000) (Some 500)
        = (Some (- 750), Some (- 750))
   \<and> calcPos (st\<lparr>zoom := Some (1 / 4)\<rparr>) (Some px) (Some 2000) (Some 500) = Some (- 750)
   \<and> calcPos_bounds (st\<lparr>zoom := Some (1 / 4)\<rparr>) (Some 1000) (Some 500)
        = (Some (- 375), Some (- 125))
   \<and> calcPos (st\<lparr>zoom := Some (1 / 4)\<rparr>) (Some 1000) (Some 1000) (Some 500) = Some (- 125)
   \<and> setState (st\<lparr>original := image_2000x1000, container := container_500x500\<rparr>)
        [Zoom (Some (1 / 10)), Position \<lparr>x = Some px, y = Some 1000\<rparr>]
        = \<lparr>position = \<lparr>x = Some (- 750), y = Some (- 125)\<rparr>, original = image_2000x1000,
           container = container_500x500, zoom = Some (1 / 4)\<rparr>"
proof -
  let ?st = "st\<lparr>original := image_2000x1000, container := container_500x500\<rparr>"
  have gz: "getZoom ?st (Some (1 / 10)) = Some (1 / 4)"
    by (simp add: getZoom_def getZoom_min_def image_2000x1000_def container_500x500_def)
  have z: "zoom (st\<lparr>zoom := Some (1 / 4)\<rparr>) = Some (1 / 4)" by simp
  have bx: "calcPos_bounds (st\<lparr>zoom := Some (1 / 4)\<rparr>) (Some 2000) (Some 500)
        = (Some (- 750), Some (- 750))"
    by (simp add: calcPos_bounds_Some [OF z])
  have by': "calcPos_bounds (st\<lparr>zoom := Some (1 / 4)\<rparr>) (Some 1000) (Some 500)
        = (Some (- 375), Some (- 125))"
    by (simp add: calcPos_bounds_Some [OF z])
  have cx: "calcPos s' (Some px) (Some 2000) (Some 500) = Some (- 750)"
    if "zoom s' = Some (1 / 4)" for s'
    by (simp add: calcPos_Some [OF that])
  have cy: "calcPos s' (Some 1000) (Some 1000) (Some 500) = Some (- 125)"
    if "zoom s' = Some (1 / 4)" for s'
    by (simp add: calcPos_Some [OF that])
  have gp: "getPosition (?st\<lparr>zoom := Some (1 / 4)\<rparr>) \<lparr>x = Some px, y = Some 1000\<rparr>
      = \<lparr>x = Some (- 750), y = Some (- 125)\<rparr>"
    by (simp add: getPosition_def cx cy image_2000x1000_def container_500x500_def)
  have z1: "zoom (setState ?st [Zoom (Some (1 / 10))]) = Some (1 / 4)"
    by (simp add: setState_def Let_def gz)
  have both: "setState ?st [Zoom (Some (1 / 10)), Position \<lparr>x = Some px, y = Some 1000\<rparr>]
        = \<lparr>position = \<lparr>x = Some (- 750), y = Some (- 125)\<rparr>, original = image_2000x1000,
           container = container_500x500, zoom = Some (1 / 4)\<rparr>"
    by (simp add: setState_def gz gp)
  show ?thesis using z1 bx by' cx [OF z] cy [OF z] both by simp
qed

theorem scenario_2000x1000_in_500x500_witness:
  "zoom (setState natural_state [Zoom (Some (1 / 10))]) = Some (1 / 4)
   \<and> calcPos covering_state (Some 0) (Some 2000) (Some 500) = Some (- 750)
   \<and> setState natural_state [Zoom (Some (1 / 10)), Position \<lparr>x = Some 0, y = Some 1000\<rparr>]
       = covering_state"
proof -
  have n: "natural_state\<lparr>original := image_2000x1000, container := container_500x500\<rparr>
      = natural_state"
    by (simp add: natural_state_def)
  have c: "covering_state\<lparr>zoom := Some (1 / 4)\<rparr> = covering_state"
    by (simp add: covering_state_def)
  have "zoom (setState natural_state [Zoom (Some (1 / 10))]) = Some (1 / 4)"
    using scenario_2000x1000_in_500x500 [of natural_state 0] by (simp only: n)
  moreover have "calcPos covering_state (Some 0) (Some 2000) (Some 500) = Some (- 750)"
    using scenario_2000x1000_in_500x500 [of covering_state 0] by (simp only: c)
  moreover have "setState natural_state [Zoom (Some (1 / 10)), Position \<lparr>x = Some 0, y = Some 1000\<rparr>]
       = covering_state"
    using scenario_2000x1000_in_500x500 [of natural_state 0] by (simp only: n covering_state_def)
  ultimately show ?thesis by simp
qed

section \<open>Idempotence\<close>

lemma getZoom_unmeasured: "unmeasured (original st) \<Longrightarrow> getZoom st z = z"
  by (auto simp add: getZoom_def unmeasured_def)

lemma getPosition_unmeasured: "unmeasured (original st) \<Longrightarrow> getPosition st p = p"
  by (auto simp add: getPosition_def unmeasured_def)

lemma getZoom_floor_ok: "zoom_floor_ok st \<Longrightarrow> getZoom st (zoom st) = zoom st"
  by (auto simp add: zoom_floor_ok_def getZoom_def split: option.splits)

lemma calcPos_within: "within_bounds st p s c \<Longrightarrow> calcPos st p s c = p"
  by (auto simp add: within_bounds_def calcPos_def clamp_inside split: option.splits prod.splits)

lemma getPosition_contained: "pan_contained st \<Longrightarrow> getPosition st (position st) = position st"
  by (simp add: pan_contained_def getPosition_def calcPos_within)

lemma getZoom_legal: "legal st \<Longrightarrow> getZoom st (zoom st) = zoom st"
  by (cases "unmeasured (original st)")
    (simp_all add: legal_def getZoom_unmeasured getZoom_floor_ok)

lemma getPosition_legal: "legal st \<Longrightarrow> getPosition st (position st) = position st"
  by (cases "unmeasured (original st)")
    (simp_all add: legal_def getPosition_unmeasured getPosition_contained)

lemma legal_covering_state: "legal covering_state"
proof -
  have m: "getZoom_min covering_state = Some (1 / 4)"
    by (simp add: getZoom_min_def covering_state_def image_2000x1000_def container_500x500_def)
  have zf: "zoom_floor_ok covering_state"
    by (simp add: zoom_floor_ok_def m zoom_covering_state)
  have pc: "pan_contained covering_state"
    by (simp add: pan_contained_def within_bounds_def covering_state_def image_2000x1000_def
        container_500x500_def calcPos_bounds_def Let_def)
  show ?thesis by (simp add: legal_def zf pc)
qed

text \<open>
  C6. In a legal state, \<open>setState ({})\<close> leaves the state as it is, position, zoom and
  both sizes; and the zoom handler and the position handler return the stored zoom and
  the stored position.
\<close>

theorem setState_empty_idempotent:
  assumes "legal st"
  shows "setState st [] = st
       \<and> getZoom st (zoom st) = zoom st \<and> getPosition st (position st) = position st
       \<and> position (setState st []) = position st \<and> zoom (setState st []) = zoom st
       \<and> original (setState st []) = original st \<and> container (setState st []) = container st"
proof -
  have z: "getZoom st (zoom st) = zoom st" using assms by (rule getZoom_legal)
  have p: "getPosition st (position st) = position st" using assms by (rule getPosition_legal)
  have "setState st [] = st"
    by (simp add: setState_def z p)
  with z p show ?thesis by simp
qed

theorem setState_empty_idempotent_witness:
  "legal covering_state \<and> setState covering_state [] = covering_state
   \<and> getZoom covering_state (Some (1 / 4)) = Some (1 / 4)
   \<and> getPosition covering_state \<lparr>x = Some (- 750), y = Some (- 125)\<rparr>
        = \<lparr>x = Some (- 750), y = Some (- 125)\<rparr>"
proof -
  have f: "zoom covering_state = Some (1 / 4)"
    "position covering_state = \<lparr>x = Some (- 750), y = Some (- 125)\<rparr>"
    by (simp_all add: covering_state_def)
  show ?thesis
    using setState_empty_idempotent [OF legal_covering_state] legal_covering_state
    by (simp only: f simp_thms)
qed

section \<open>An image that is not measured\<close>

lemma applyKey_keeps_zoom: "\<not> is_zoom e \<Longrightarrow> zoom (applyKey st e) = zoom st"
  by (cases e) simp_all

lemma applyKey_keeps_position: "\<not> is_position e \<Longrightarrow> position (applyKey st e) = position st"
  by (cases e) simp_all

lemma applyState_keeps_zoom: "filter is_zoom ns = [] \<Longrightarrow> zoom (applyState st ns) = zoom st"
  by (induction ns arbitrary: st) (auto simp add: applyKey_keeps_zoom split: if_splits)

lemma applyState_keeps_position:
  "filter is_position ns = [] \<Longrightarrow> position (applyState st ns) = position st"
  by (induction ns arbitrary: st) (auto simp add: applyKey_keeps_position split: if_splits)









section \<open>The order of the keys\<close>

text \<open>
  The minimum that \<open>getZoom\<close> computes is the larger side of the container divided by
  the larger side of the image.
\<close>

lemma getZoom_min_Some:
  "width (original st) = Some ow \<Longrightarrow> height (original st) = Some oh \<Longrightarrow>
   width (container st) = Some cw \<Longrightarrow> height (container st) = Some ch \<Longrightarrow>
   max ow oh \<noteq> 0 \<Longrightarrow> getZoom_min st = Some (max cw ch / max ow oh)"
  by (auto simp add: getZoom_min_def max_def split: if_splits)

lemma getZoom_Some:
  "\<not> unmeasured (original st) \<Longrightarrow> getZoom_min st = Some m \<Longrightarrow>
     getZoom st (Some z) = Some (max z m)"
  by (simp add: getZoom_def unmeasured_def)

lemma getZoom_min_sizes:
  "original a = original b \<Longrightarrow> container a = container b \<Longrightarrow> getZoom_min a = getZoom_min b"
  by (simp add: getZoom_min_def)

lemma calcPos_bounds_zoom:
  "zoom a = zoom b \<Longrightarrow> calcPos_bounds a s c = calcPos_bounds b s c"
  by (simp add: calcPos_bounds_def)

lemma within_bounds_calcPos:
  assumes "zoom st = Some z"
  shows "within_bounds st (calcPos st (Some p) (Some s) (Some c)) (Some s) (Some c)"
  using bounds_ordered [of s z c]
  by (simp add: within_bounds_def calcPos_Some [OF assms] calcPos_bounds_Some [OF assms])

lemma no_zoom_key: "\<not> list_ex is_zoom ns \<Longrightarrow> filter is_zoom ns = []"
  by (simp add: list_ex_iff filter_empty_conv)

lemma no_position_key: "\<not> list_ex is_position ns \<Longrightarrow> filter is_position ns = []"
  by (simp add: list_ex_iff filter_empty_conv)

lemma setState_sizes:
  "original (setState st ns) = original (applyState st ns)"
  "container (setState st ns) = container (applyState st ns)"
  by (simp_all add: setState_def Let_def)

text \<open>
  The branch of \<open>setState\<close> for a missing \<open>zoom\<close> key applies the zoom handler after
  every key of the argument: the stored zoom is then at least the minimum for the sizes
  stored.
\<close>

lemma zoom_floor_without_zoom_key:
  assumes nz: "\<not> list_ex is_zoom ns"
    and m: "\<not> unmeasured (original (setState st ns))"
    and z: "zoom st = Some z"
    and mn: "getZoom_min (setState st ns) = Some m"
  shows "zoom_floor_ok (setState st ns)"
proof -
  let ?st1 = "applyState st ns"
  have z1: "zoom ?st1 = Some z"
    using z no_zoom_key [OF nz] by (simp add: applyState_keeps_zoom)
  have m1: "\<not> unmeasured (original ?st1)" using m by (simp add: setState_sizes)
  have mn1: "getZoom_min ?st1 = Some m"
    using mn getZoom_min_sizes [of "setState st ns" ?st1] by (simp add: setState_sizes)
  have "zoom (setState st ns) = getZoom ?st1 (Some z)"
    using nz z1 by (simp add: setState_def Let_def)
  then have "zoom (setState st ns) = Some (max z m)"
    using m1 mn1 by (simp add: getZoom_Some)
  then show ?thesis using mn by (simp add: zoom_floor_ok_def)
qed

text \<open>
  The branch of \<open>setState\<close> for a missing \<open>position\<close> key applies the position handler
  last, after the zoom is settled: the stored position is then within the bounds for the
  zoom and sizes stored.
\<close>

lemma pan_contained_without_position_key:
  assumes np: "\<not> list_ex is_position ns"
    and m: "\<not> unmeasured (original (setState st ns))"
    and p: "position st = \<lparr>x = Some px, y = Some py\<rparr>"
    and z: "zoom (setState st ns) = Some z"
    and o: "original (setState st ns) = \<lparr>width = Some ow, height = Some oh\<rparr>"
    and c: "container (setState st ns) = \<lparr>width = Some cw, height = Some ch\<rparr>"
  shows "pan_contained (setState st ns)"
proof -
  define st1 where "st1 = applyState st ns"
  define st2 where
    "st2 = (if \<not> list_ex is_zoom ns then applyState st1 [Zoom (zoom st1)] else st1)"
  have p1: "position st1 = position st"
    using no_position_key [OF np] by (simp add: st1_def applyState_keeps_position)
  have p2: "position st2 = \<lparr>x = Some px, y = Some py\<rparr>"
    using p1 p by (simp add: st2_def)
  have eq: "setState st ns = st2\<lparr>position := getPosition st2 (position st2)\<rparr>"
    using np by (simp add: setState_def Let_def st1_def st2_def)
  have z2: "zoom st2 = Some z" using z by (simp add: eq)
  have o2: "original st2 = \<lparr>width = Some ow, height = Some oh\<rparr>" using o by (simp add: eq)
  have c2: "container st2 = \<lparr>width = Some cw, height = Some ch\<rparr>" using c by (simp add: eq)
  have m2: "\<not> unmeasured (original st2)" using m by (simp add: eq)
  have gp: "getPosition st2 (position st2) =
      \<lparr>x = calcPos st2 (Some px) (Some ow) (Some cw),
       y = calcPos st2 (Some py) (Some oh) (Some ch)\<rparr>"
    using m2 by (simp add: getPosition_def unmeasured_def p2 o2 c2)
  have bx: "within_bounds st2 (calcPos st2 (Some px) (Some ow) (Some cw)) (Some ow) (Some cw)"
    using z2 by (rule within_bounds_calcPos)
  have by': "within_bounds st2 (calcPos st2 (Some py) (Some oh) (Some ch)) (Some oh) (Some ch)"
    using z2 by (rule within_bounds_calcPos)
  have cb: "calcPos_bounds (st2\<lparr>position := q\<rparr>) s k = calcPos_bounds st2 s k" for q s k
    by (rule calcPos_bounds_zoom) simp
  have wb: "within_bounds (st2\<lparr>position := q\<rparr>) v s k = within_bounds st2 v s k" for q v s k
    by (simp only: within_bounds_def cb)
  show ?thesis
    unfolding eq pan_contained_def wb
    using bx by' by (simp add: gp o2 c2)
qed

section \<open>Keys in the order sizes, zoom, position\<close>

lemma applyState_append: "applyState st (as @ bs) = applyState (applyState st as) bs"
  by (induction as arbitrary: st) simp_all

lemma applyKey_position_frame:
  "is_position e \<Longrightarrow> original (applyKey st e) = original st
     \<and> container (applyKey st e) = container st \<and> zoom (applyKey st e) = zoom st"
  by (cases e) simp_all

lemma applyState_positions_frame:
  "list_all is_position ns \<Longrightarrow> original (applyState st ns) = original st
     \<and> container (applyState st ns) = container st \<and> zoom (applyState st ns) = zoom st"
  by (induction ns arbitrary: st) (simp_all add: applyKey_position_frame)

text \<open>
  When the \<open>zoom\<close> key comes after the size keys (only \<open>position\<close> keys follow it), the
  zoom handler sees the sizes of the same call and the zoom stored is at least the
  minimum.
\<close>

lemma zoom_floor_zoom_key_after_sizes:
  assumes ns: "ns = pre @ Zoom (Some z) # post" and post: "list_all is_position post"
    and m: "\<not> unmeasured (original (setState st ns))"
    and mn: "getZoom_min (setState st ns) = Some m"
  shows "zoom_floor_ok (setState st ns)"
proof -
  define sp where "sp = applyState st pre"
  have a: "applyState st ns = applyState (sp\<lparr>zoom := getZoom sp (Some z)\<rparr>) post"
    by (simp add: ns applyState_append sp_def)
  have fr: "original (applyState st ns) = original sp"
    "container (applyState st ns) = container sp"
    "zoom (applyState st ns) = getZoom sp (Some z)"
    using applyState_positions_frame [OF post, of "sp\<lparr>zoom := getZoom sp (Some z)\<rparr>"]
    by (simp_all add: a)
  have has: "list_ex is_zoom ns" by (simp add: ns)
  have zz: "zoom (setState st ns) = getZoom sp (Some z)"
    using has fr(3) by (simp add: setState_def Let_def)
  have msp: "\<not> unmeasured (original sp)" using m by (simp add: setState_sizes fr)
  have "getZoom_min sp = getZoom_min (setState st ns)"
    by (rule getZoom_min_sizes) (simp_all add: setState_sizes fr)
  then have "getZoom_min sp = Some m" using mn by simp
  then have "zoom (setState st ns) = Some (max z m)"
    using msp by (simp add: zz getZoom_Some)
  then show ?thesis using mn by (simp add: zoom_floor_ok_def)
qed

text \<open>
  When the \<open>position\<close> key is the last one and a \<open>zoom\<close> key comes before it, the
  position handler sees the zoom and the sizes of the same call and the position stored
  is within its bounds.
\<close>

lemma pan_contained_position_key_last:
  assumes ns: "ns = pre @ [Position \<lparr>x = Some px, y = Some py\<rparr>]"
    and hz: "list_ex is_zoom pre"
    and m: "\<not> unmeasured (original (setState st ns))"
    and z: "zoom (setState st ns) = Some z"
    and o: "original (setState st ns) = \<lparr>width = Some ow, height = Some oh\<rparr>"
    and c: "container (setState st ns) = \<lparr>width = Some cw, height = Some ch\<rparr>"
  shows "pan_contained (setState st ns)"
proof -
  define sp where "sp = applyState st pre"
  let ?p = "\<lparr>x = Some px, y = Some py\<rparr>"
  have eq: "setState st ns = sp\<lparr>position := getPosition sp ?p\<rparr>"
    using hz by (simp add: setState_def Let_def ns applyState_append sp_def)
  have z2: "zoom sp = Some z" using z by (simp add: eq)
  have o2: "original sp = \<lparr>width = Some ow, height = Some oh\<rparr>" using o by (simp add: eq)
  have c2: "container sp = \<lparr>width = Some cw, height = Some ch\<rparr>" using c by (simp add: eq)
  have m2: "\<not> unmeasured (original sp)" using m by (simp add: eq)
  have gp: "getPosition sp ?p =
      \<lparr>x = calcPos sp (Some px) (Some ow) (Some cw),
       y = calcPos sp (Some py) (Some oh) (Some ch)\<rparr>"
    using m2 by (simp add: getPosition_def unmeasured_def o2 c2)
  have bx: "within_bounds sp (calcPos sp (Some px) (Some ow) (Some cw)) (Some ow) (Some cw)"
    using z2 by (rule within_bounds_calcPos)
  have by': "within_bounds sp (calcPos sp (Some py) (Some oh) (Some ch)) (Some oh) (Some ch)"
    using z2 by (rule within_bounds_calcPos)
  have cb: "calcPos_bounds (sp\<lparr>position := q\<rparr>) s k = calcPos_bounds sp s k" for q s k
    by (rule calcPos_bounds_zoom) simp
  have wb: "within_bounds (sp\<lparr>position := q\<rparr>) v s k = within_bounds sp v s k" for q v s k
    by (simp only: within_bounds_def cb)
  show ?thesis
    unfolding eq pan_contained_def wb
    using bx by' by (simp add: gp o2 c2)
qed

section \<open>Keys in another order\<close>

text \<open>
  C1. The zoom floor fails when the caller writes the \<open>zoom\<close> key before a size key:
  in the legal state \<open>covering_state\<close>, \<open>setState ({zoom: 0.3, container: {width:
  1000, height: 1000}})\<close> stores the zoom 0.3, below the minimum 0.5 of the sizes
  stored; the same keys in the other order store 0.5.
\<close>

theorem zoom_floor_broken_by_key_order:
  "legal covering_state
   \<and> zoom (setState covering_state [Zoom (Some (3 / 10)), Container container_1000x1000])
       = Some (3 / 10)
   \<and> getZoom_min (setState covering_state [Zoom (Some (3 / 10)), Container container_1000x1000])
       = Some (1 / 2)
   \<and> \<not> zoom_floor_ok
          (setState covering_state [Zoom (Some (3 / 10)), Container container_1000x1000])
   \<and> zoom (setState covering_state [Container container_1000x1000, Zoom (Some (3 / 10))])
       = Some (1 / 2)"
proof -
  let ?bad = "setState covering_state [Zoom (Some (3 / 10)), Container container_1000x1000]"
  have bad: "?bad = \<lparr>position = \<lparr>x = Some (- 700), y = Some (- 125)\<rparr>,
      original = \<lparr>width = Some 2000, height = Some 1000\<rparr>,
      container = \<lparr>width = Some 1000, height = Some 1000\<rparr>, zoom = Some (3 / 10)\<rparr>"
    by (simp add: setState_def covering_state_def getZoom_def getZoom_min_def getPosition_def
        calcPos_def calcPos_bounds_def clamp_def Let_def
        image_2000x1000_def container_500x500_def container_1000x1000_def)
  have z: "zoom ?bad = Some (3 / 10)"
    by (simp only: bad state.simps)
  have m: "getZoom_min ?bad = Some (1 / 2)"
    using getZoom_min_Some [of ?bad 2000 1000 1000 1000] by (simp add: bad)
  have nok: "\<not> zoom_floor_ok ?bad"
    by (simp add: zoom_floor_ok_def z m)
  have good: "zoom (setState covering_state [Container container_1000x1000, Zoom (Some (3 / 10))])
       = Some (1 / 2)"
    by (simp add: setState_def covering_state_def getZoom_def getZoom_min_def
        image_2000x1000_def container_1000x1000_def)
  show ?thesis using legal_covering_state z m nok good by simp
qed

text \<open>
  C2. The containment of the position fails when the caller writes the \<open>position\<close> key
  before the \<open>zoom\<close> key: in the legal state \<open>natural_state\<close>, \<open>setState ({position:
  {x: 0, y: 0}, zoom: 0.25})\<close> stores the position (0, 0) with the zoom 0.25, whose
  bounds on the x axis are -750 and -750; the same keys in the other order store
  (-750, -125). It fails as well for \<open>setState ({container: {width: 1000, height: 1000},
  position: {x: 0, y: 0}})\<close> in \<open>covering_state\<close>: the position is clamped at the zoom
  0.25, which is then raised to 0.5.
\<close>

theorem pan_containment_broken_by_key_order:
  "setState natural_state [Position \<lparr>x = Some 0, y = Some 0\<rparr>, Zoom (Some (1 / 4))]
     = natural_state\<lparr>zoom := Some (1 / 4)\<rparr>
   \<and> calcPos_bounds (natural_state\<lparr>zoom := Some (1 / 4)\<rparr>) (Some 2000) (Some 500)
       = (Some (- 750), Some (- 750))
   \<and> \<not> pan_contained
        (setState natural_state [Position \<lparr>x = Some 0, y = Some 0\<rparr>, Zoom (Some (1 / 4))])
   \<and> setState natural_state [Zoom (Some (1 / 4)), Position \<lparr>x = Some 0, y = Some 0\<rparr>]
       = covering_state
   \<and> setState covering_state
        [Container container_1000x1000, Position \<lparr>x = Some 0, y = Some 0\<rparr>]
       = \<lparr>position = \<lparr>x = Some (- 250), y = Some 0\<rparr>, original = image_2000x1000,
          container = container_1000x1000, zoom = Some (1 / 2)\<rparr>
   \<and> \<not> pan_contained
        (setState covering_state
          [Container container_1000x1000, Position \<lparr>x = Some 0, y = Some 0\<rparr>])"
proof -
  let ?p0 = "\<lparr>x = Some 0, y = Some 0\<rparr>"
  have bad: "setState natural_state [Position ?p0, Zoom (Some (1 / 4))]
      = natural_state\<lparr>zoom := Some (1 / 4)\<rparr>"
    by (simp add: setState_def natural_state_def getZoom_def getZoom_min_def getPosition_def
        calcPos_def calcPos_bounds_def clamp_def Let_def
        image_2000x1000_def container_500x500_def)
  have z: "zoom (natural_state\<lparr>zoom := Some (1 / 4)\<rparr>) = Some (1 / 4)" by simp
  have b: "calcPos_bounds (natural_state\<lparr>zoom := Some (1 / 4)\<rparr>) (Some 2000) (Some 500)
       = (Some (- 750), Some (- 750))"
    by (simp add: calcPos_bounds_Some [OF z])
  have f: "x (position (natural_state\<lparr>zoom := Some (1 / 4)\<rparr>)) = Some 0"
    "width (original (natural_state\<lparr>zoom := Some (1 / 4)\<rparr>)) = Some 2000"
    "width (container (natural_state\<lparr>zoom := Some (1 / 4)\<rparr>)) = Some 500"
    by (simp_all add: natural_state_def image_2000x1000_def container_500x500_def)
  have nc: "\<not> pan_contained (natural_state\<lparr>zoom := Some (1 / 4)\<rparr>)"
    unfolding pan_contained_def f by (simp add: within_bounds_def b)
  have good: "setState natural_state [Zoom (Some (1 / 4)), Position ?p0] = covering_state"
    by (simp add: setState_def natural_state_def covering_state_def getZoom_def getZoom_min_def
        getPosition_def calcPos_def calcPos_bounds_def clamp_def Let_def
        image_2000x1000_def container_500x500_def)
  let ?r = "\<lparr>position = \<lparr>x = Some (- 250), y = Some 0\<rparr>, original = image_2000x1000,
          container = container_1000x1000, zoom = Some (1 / 2)\<rparr>"
  have bad2: "setState covering_state [Container container_1000x1000, Position ?p0] = ?r"
    by (simp add: setState_def covering_state_def getZoom_def getZoom_min_def
        getPosition_def calcPos_def calcPos_bounds_def clamp_def Let_def
        image_2000x1000_def container_1000x1000_def)
  have nc2: "\<not> pan_contained ?r"
    by (simp add: pan_contained_def within_bounds_def calcPos_bounds_def Let_def
        image_2000x1000_def container_1000x1000_def)
  show ?thesis using bad b nc good bad2 nc2 by simp
qed

text \<open>
  C4. The handlers run in the order of the keys of the argument. From the state of a new
  instance in a container of 500 by 500, \<open>setState ({zoom: 0.1, original: {width: 2000,
  height: 1000}})\<close> stores the zoom 0.1, not clamped against the size given in the same
  call, where \<open>setState ({original: \<dots>, zoom: 0.1})\<close> stores 0.25. In
  \<open>natural_state\<close>, \<open>setState ({position: {x: 0, y: 0}, zoom: 0.25})\<close> clamps the
  position against the zoom 1 stored before and keeps (0, 0), where \<open>setState ({zoom:
  0.25, position: {x: 0, y: 0}})\<close> stores (-750, -125).
\<close>

theorem handlers_run_in_key_order:
  "zoom (setState (rogneur container_500x500) [Zoom (Some (1 / 10)), Original image_2000x1000])
     = Some (1 / 10)
   \<and> zoom (setState (rogneur container_500x500) [Original image_2000x1000, Zoom (Some (1 / 10))])
     = Some (1 / 4)
   \<and> position (setState natural_state [Position \<lparr>x = Some 0, y = Some 0\<rparr>, Zoom (Some (1 / 4))])
     = \<lparr>x = Some 0, y = Some 0\<rparr>
   \<and> position (setState natural_state [Zoom (Some (1 / 4)), Position \<lparr>x = Some 0, y = Some 0\<rparr>])
     = \<lparr>x = Some (- 750), y = Some (- 125)\<rparr>"
proof -
  have new: "rogneur container_500x500 =
      \<lparr>position = \<lparr>x = Some 0, y = Some 0\<rparr>, original = empty_dims,
       container = container_500x500, zoom = Some 1\<rparr>"
    by (simp add: rogneur_def updateContainerSize_def setState_def initial_state_def
        empty_dims_def getZoom_def getPosition_def container_500x500_def)
  have a: "zoom (setState (rogneur container_500x500)
        [Zoom (Some (1 / 10)), Original image_2000x1000]) = Some (1 / 10)"
    unfolding new by (simp add: setState_def empty_dims_def getZoom_def)
  have b: "zoom (setState (rogneur container_500x500)
        [Original image_2000x1000, Zoom (Some (1 / 10))]) = Some (1 / 4)"
    unfolding new by (simp add: setState_def getZoom_def getZoom_min_def
        image_2000x1000_def container_500x500_def)
  have c: "position (setState natural_state
        [Position \<lparr>x = Some 0, y = Some 0\<rparr>, Zoom (Some (1 / 4))]) = \<lparr>x = Some 0, y = Some 0\<rparr>"
    by (simp add: setState_def natural_state_def getPosition_def
        calcPos_def calcPos_bounds_def clamp_def Let_def
        image_2000x1000_def container_500x500_def)
  have d: "position (setState natural_state
        [Zoom (Some (1 / 4)), Position \<lparr>x = Some 0, y = Some 0\<rparr>])
      = \<lparr>x = Some (- 750), y = Some (- 125)\<rparr>"
    by (simp add: setState_def natural_state_def getZoom_def getZoom_min_def getPosition_def
        calcPos_def calcPos_bounds_def clamp_def Let_def
        image_2000x1000_def container_500x500_def)
  show ?thesis using a b c d by simp
qed

section \<open>What \<open>getState\<close> returns\<close>

lemma setState_empty_legal: "legal st \<Longrightarrow> setState st [] = st"
  by (simp add: setState_def getZoom_legal getPosition_legal)

text \<open>
  C9, as the specification states it: the value returned by \<open>getState\<close> is a snapshot,
  so that a write to one of its fields leaves the state of the instance as it was. It
  fails: after \<open>getState ().zoom = 2\<close> the instance's own state has the zoom 2, and a
  later \<open>setState ({})\<close> works on it.
\<close>

theorem getState_snapshot_counterexample:
  "\<not> (\<forall>h i upd. internal_state (assign_field h (getState i) upd) i = internal_state h i)
   \<and> internal_state example_store example_instance = Some covering_state
   \<and> internal_state
        (assign_field example_store (getState example_instance) (\<lambda>ob. ob\<lparr>zoom := Some 2\<rparr>))
        example_instance = Some (covering_state\<lparr>zoom := Some 2\<rparr>)
   \<and> internal_state
        (setState_in
          (assign_field example_store (getState example_instance) (\<lambda>ob. ob\<lparr>zoom := Some 2\<rparr>))
          example_instance [])
        example_instance
      \<noteq> internal_state (setState_in example_store example_instance []) example_instance"
proof -
  let ?w = "\<lambda>ob. ob\<lparr>zoom := Some 2\<rparr>"
  have a: "internal_state example_store example_instance = Some covering_state"
    by (simp add: internal_state_def example_store_def example_instance_def)
  have b: "internal_state (assign_field example_store (getState example_instance) ?w)
        example_instance = Some (covering_state\<lparr>zoom := Some 2\<rparr>)"
    by (simp add: internal_state_def assign_field_def getState_def example_store_def
        example_instance_def)
  have ne: "covering_state\<lparr>zoom := Some 2\<rparr> \<noteq> covering_state"
    by (simp add: covering_state_def)
  have "internal_state (assign_field example_store (getState example_instance) ?w)
        example_instance \<noteq> internal_state example_store example_instance"
    using a b ne by simp
  then have n: "\<not> (\<forall>h i upd. internal_state (assign_field h (getState i) upd) i
        = internal_state h i)"
    by blast
  have c: "internal_state (setState_in example_store example_instance []) example_instance
      = Some covering_state"
    by (simp add: internal_state_def setState_in_def example_store_def example_instance_def
        setState_empty_legal [OF legal_covering_state])
  have "zoom (setState (covering_state\<lparr>zoom := Some 2\<rparr>) []) = Some 2"
    by (simp add: setState_def covering_state_def getZoom_def getZoom_min_def
        image_2000x1000_def container_500x500_def)
  then have d: "setState (covering_state\<lparr>zoom := Some 2\<rparr>) [] \<noteq> covering_state"
    by (auto simp add: covering_state_def)
  have e: "internal_state
        (setState_in (assign_field example_store (getState example_instance) ?w)
          example_instance [])
        example_instance = Some (setState (covering_state\<lparr>zoom := Some 2\<rparr>) [])"
    by (simp add: internal_state_def setState_in_def assign_field_def getState_def
        example_store_def example_instance_def)
  show ?thesis using n a b c d e by simp
qed

text \<open>
  C9, amended: \<open>getState\<close> returns the reference held by the instance's own variable
  \<open>state\<close>, the same at every call and not a copy. A write to a field of the object
  returned is a write to the state of the instance, and a later \<open>setState\<close> starts from
  the state so changed.
\<close>

theorem getState_returns_live_state:
  assumes "internal_state h i = Some st"
  shows "getState i = state_var i
       \<and> internal_state (assign_field h (getState i) upd) i = Some (upd st)
       \<and> internal_state (setState_in (assign_field h (getState i) upd) i ns) i
           = Some (setState (upd st) ns)"
  using assms
  by (simp add: internal_state_def getState_def assign_field_def setState_in_def)

theorem getState_returns_live_state_witness:
  "internal_state example_store example_instance = Some covering_state
   \<and> getState example_instance = 0
   \<and> internal_state
        (assign_field example_store (getState example_instance) (\<lambda>ob. ob\<lparr>zoom := Some 2\<rparr>))
        example_instance = Some (covering_state\<lparr>zoom := Some 2\<rparr>)"
proof -
  have a: "internal_state example_store example_instance = Some covering_state"
    by (simp add: internal_state_def example_store_def example_instance_def)
  have v: "state_var example_instance = 0" by (simp add: example_instance_def)
  show ?thesis
    using getState_returns_live_state [OF a, of "\<lambda>ob. ob\<lparr>zoom := Some 2\<rparr>" "[]"] a
    by (simp add: getState_def v)
qed

section \<open>The bounds in doubles\<close>










text \<open>Without rounding, the computation is the one over exact numbers.\<close>

lemma rounded_exact: "rounded (\<lambda>v. v) n = n"
  by (cases n) (simp_all add: rounded_def)

lemma calcPos_bounds_rounded_exact:
  "calcPos_bounds_rounded (\<lambda>v. v) st s c = calcPos_bounds st s c"
  by (simp add: calcPos_bounds_rounded_def calcPos_bounds_def rounded_exact)

lemma calcPos_rounded_exact: "calcPos_rounded (\<lambda>v. v) st p s c = calcPos st p s c"
  by (simp add: calcPos_rounded_def calcPos_def calcPos_bounds_rounded_exact)

















end
